theory Spec2Isabelle
  imports Complex_Main "HOL-Library.Word"
begin

unbundle bit_operations_syntax

section \<open>JavaScript values\<close>

text \<open>
  A JavaScript string is a sequence of 16-bit code units; \<open>charCodeAt\<close> reads one of them.
  \<open>str\<close> embeds an ASCII literal of the source.
\<close>

type_synonym jsstring = "16 word list"

definition str :: "string \<Rightarrow> jsstring" where
  "str s = map (\<lambda>c. of_nat (of_char c)) s"

text \<open>
  A Number is NaN, an infinity or a finite value. Finite values are reals (every finite
  double is one), so comparison, \<open>Math.max\<close>, \<open>Math.min\<close> and \<open>%\<close> are exactly those of
  IEEE 754; the sum of two finite values is the exact sum (the rounding of \<open>+\<close> is not
  modelled), and the two zeros are one value (no operation used here tells them apart).
\<close>

datatype jsnum = NaN | PInf | NInf | Fin real

text \<open>
  The values that flag data and contexts are made of: the JSON values, \<open>undefined\<close> and the
  non-finite numbers. Arrays and objects carry their reference (\<open>===\<close> compares references);
  an object is the list of its own properties in the order of their creation (for a
  literal or parsed JSON, the order of declaration), with distinct keys.
\<close>

datatype jsval =
    JUndefined
  | JNull
  | JBool bool
  | JNum jsnum
  | JStr jsstring
  | JArr nat "jsval list"
  | JObj nat "(jsstring \<times> jsval) list"

datatype js_error = TypeError

subsection \<open>Numbers\<close>

fun js_lt :: "jsnum \<Rightarrow> jsnum \<Rightarrow> bool" where
  "js_lt NaN b = False"
| "js_lt a NaN = False"
| "js_lt (Fin a) (Fin b) = (a < b)"
| "js_lt PInf b = False"
| "js_lt a NInf = False"
| "js_lt NInf b = True"
| "js_lt a PInf = True"

definition js_le :: "jsnum \<Rightarrow> jsnum \<Rightarrow> bool" where
  "js_le a b = (a \<noteq> NaN \<and> b \<noteq> NaN \<and> \<not> js_lt b a)"

definition js_ge :: "jsnum \<Rightarrow> jsnum \<Rightarrow> bool" where
  "js_ge a b = js_le b a"

definition num_eq :: "jsnum \<Rightarrow> jsnum \<Rightarrow> bool" where
  "num_eq a b = (a \<noteq> NaN \<and> a = b)"

definition Math_max :: "jsnum \<Rightarrow> jsnum \<Rightarrow> jsnum" where
  "Math_max a b = (if a = NaN \<or> b = NaN then NaN else if js_lt a b then b else a)"

definition Math_min :: "jsnum \<Rightarrow> jsnum \<Rightarrow> jsnum" where
  "Math_min a b = (if a = NaN \<or> b = NaN then NaN else if js_lt b a then b else a)"

fun js_add :: "jsnum \<Rightarrow> jsnum \<Rightarrow> jsnum" where
  "js_add NaN b = NaN"
| "js_add a NaN = NaN"
| "js_add (Fin a) (Fin b) = Fin (a + b)"
| "js_add PInf NInf = NaN"
| "js_add NInf PInf = NaN"
| "js_add PInf b = PInf"
| "js_add NInf b = NInf"
| "js_add a PInf = PInf"
| "js_add a NInf = NInf"

text \<open>
  \<open>n % d\<close>: NaN when an operand is NaN, \<open>n\<close> is infinite or \<open>d\<close> is zero; \<open>n\<close> when \<open>d\<close> is
  infinite; otherwise \<open>n - d * q\<close> with \<open>q\<close> the quotient truncated towards zero.
\<close>

definition trunc :: "real \<Rightarrow> int" where
  "trunc x = (if 0 \<le> x then \<lfloor>x\<rfloor> else \<lceil>x\<rceil>)"

fun js_rem :: "jsnum \<Rightarrow> jsnum \<Rightarrow> jsnum" where
  "js_rem (Fin n) (Fin d) = (if d = 0 then NaN else Fin (n - d * of_int (trunc (n / d))))"
| "js_rem (Fin n) PInf = Fin n"
| "js_rem (Fin n) NInf = Fin n"
| "js_rem n d = NaN"

subsection \<open>Tests and comparisons\<close>

fun truthy :: "jsval \<Rightarrow> bool" where
  "truthy JUndefined = False"
| "truthy JNull = False"
| "truthy (JBool b) = b"
| "truthy (JNum n) = (n \<noteq> NaN \<and> n \<noteq> Fin 0)"
| "truthy (JStr s) = (s \<noteq> [])"
| "truthy (JArr i xs) = True"
| "truthy (JObj i ps) = True"

fun nullish :: "jsval \<Rightarrow> bool" where
  "nullish JUndefined = True"
| "nullish JNull = True"
| "nullish v = False"

text \<open>\<open>typeof v === "number"\<close>, \<open>typeof v === "object"\<close> and \<open>Array.isArray(v)\<close>.\<close>

fun typeof_number :: "jsval \<Rightarrow> bool" where
  "typeof_number (JNum n) = True"
| "typeof_number v = False"

fun typeof_object :: "jsval \<Rightarrow> bool" where
  "typeof_object JNull = True"
| "typeof_object (JArr i xs) = True"
| "typeof_object (JObj i ps) = True"
| "typeof_object v = False"

fun Array_isArray :: "jsval \<Rightarrow> bool" where
  "Array_isArray (JArr i xs) = True"
| "Array_isArray v = False"

text \<open>\<open>a === b\<close>.\<close>

definition strict_eq :: "jsval \<Rightarrow> jsval \<Rightarrow> bool" where
  "strict_eq a b =
     (case a of
        JUndefined \<Rightarrow> b = JUndefined
      | JNull \<Rightarrow> b = JNull
      | JBool x \<Rightarrow> b = JBool x
      | JNum x \<Rightarrow> (case b of JNum y \<Rightarrow> num_eq x y | _ \<Rightarrow> False)
      | JStr s \<Rightarrow> b = JStr s
      | JArr i xs \<Rightarrow> (case b of JArr j ys \<Rightarrow> i = j | _ \<Rightarrow> False)
      | JObj i ps \<Rightarrow> (case b of JObj j qs \<Rightarrow> i = j | _ \<Rightarrow> False))"

text \<open>
  \<open>Array.prototype.includes\<close> compares with SameValueZero: \<open>===\<close>, except that NaN is the
  same value as NaN.
\<close>

definition same_value_zero :: "jsval \<Rightarrow> jsval \<Rightarrow> bool" where
  "same_value_zero a b = (strict_eq a b \<or> (a = JNum NaN \<and> b = JNum NaN))"

definition Array_includes :: "jsval list \<Rightarrow> jsval \<Rightarrow> bool" where
  "Array_includes xs v = list_ex (\<lambda>e. same_value_zero e v) xs"

subsection \<open>Property access\<close>

text \<open>
  \<open>v.name\<close> for the property names this program reads (\<open>enabled\<close>, \<open>conditions\<close>, \<open>rollout\<close>,
  \<open>variants\<close>, \<open>percentage\<close>, \<open>attribute\<close>, \<open>operator\<close>, \<open>value\<close>, \<open>weight\<close>), none of which
  is an index, \<open>length\<close> or a member of a built-in prototype: reading a property of
  \<open>undefined\<close> or \<open>null\<close> throws a TypeError, a primitive or an array has none of these
  properties, an object has its own.
\<close>

fun read_prop :: "jsval \<Rightarrow> jsstring \<Rightarrow> jsval" where
  "read_prop (JObj i ps) name = (case map_of ps name of None \<Rightarrow> JUndefined | Some v \<Rightarrow> v)"
| "read_prop v name = JUndefined"

definition get_prop :: "jsval \<Rightarrow> jsstring \<Rightarrow> js_error + jsval" where
  "get_prop v name = (if nullish v then Inl TypeError else Inr (read_prop v name))"

subsection \<open>String coercion\<close>

fun join :: "jsstring \<Rightarrow> jsstring list \<Rightarrow> jsstring" where
  "join sep [] = []"
| "join sep [s] = s"
| "join sep (s # t # ss) = s @ sep @ join sep (t # ss)"

text \<open>
  \<open>String(v)\<close>, also the conversion of a computed property key. The decimal text of a finite
  number is the host engine's \<open>Number::toString\<close>, the parameter \<open>N\<close>. An array is its
  elements joined by commas, \<open>undefined\<close> and \<open>null\<close> elements as the empty string.
\<close>

fun ToString :: "(real \<Rightarrow> jsstring) \<Rightarrow> jsval \<Rightarrow> jsstring" where
  "ToString N JUndefined = str ''undefined''"
| "ToString N JNull = str ''null''"
| "ToString N (JBool b) = (if b then str ''true'' else str ''false'')"
| "ToString N (JNum NaN) = str ''NaN''"
| "ToString N (JNum PInf) = str ''Infinity''"
| "ToString N (JNum NInf) = str ''-Infinity''"
| "ToString N (JNum (Fin r)) = N r"
| "ToString N (JStr s) = s"
| "ToString N (JArr i xs) =
     join (str '','') (map (\<lambda>x. if nullish x then [] else ToString N x) xs)"
| "ToString N (JObj i ps) = str ''[object Object]''"

text \<open>The decimal digits of an array index, the key under which \<open>Object.entries\<close> lists it.\<close>

fun index_str :: "nat \<Rightarrow> jsstring" where
  "index_str n =
     (if n < 10 then [of_nat (48 + n)] else index_str (n div 10) @ [of_nat (48 + n mod 10)])"

text \<open>
  An array index is a property name that is the canonical decimal text of an integer below
  \<open>2^32 - 1\<close>.
\<close>

fun digits_value :: "jsstring \<Rightarrow> nat \<Rightarrow> nat option" where
  "digits_value [] acc = Some acc"
| "digits_value (c # cs) acc =
     (if 48 \<le> c \<and> c \<le> 57 then digits_value cs (10 * acc + (unat c - 48)) else None)"

definition array_index :: "jsstring \<Rightarrow> nat option" where
  "array_index s =
     (case digits_value s 0 of
        None \<Rightarrow> None
      | Some n \<Rightarrow> if index_str n = s \<and> n < 4294967295 then Some n else None)"

definition is_index_entry :: "jsstring \<times> jsval \<Rightarrow> bool" where
  "is_index_entry e = (array_index (fst e) \<noteq> None)"

definition index_key :: "jsstring \<times> jsval \<Rightarrow> nat" where
  "index_key e = (case array_index (fst e) of None \<Rightarrow> 0 | Some n \<Rightarrow> n)"

text \<open>
  \<open>Object.entries(v)\<close> for a value with \<open>typeof v === "object"\<close>: the own properties whose
  names are array indices, in ascending numeric order, then the others in the order of
  their creation. An array has its elements under their indices.
\<close>

fun Object_entries :: "jsval \<Rightarrow> (jsstring \<times> jsval) list" where
  "Object_entries (JObj i ps) =
     sort_key index_key (filter is_index_entry ps) @ filter (\<lambda>e. \<not> is_index_entry e) ps"
| "Object_entries (JArr i xs) = zip (map index_str [0..<length xs]) xs"
| "Object_entries v = []"

section \<open>hash.js\<close>

text \<open>
  The loop of \<open>hashStringToInt\<close>: \<open>hash ^= str.charCodeAt(i)\<close>, then
  \<open>hash = Math.imul(hash, 16777619) >>> 0\<close>, on the 32 bits of \<open>hash\<close>.
\<close>

fun hash_loop :: "32 word \<Rightarrow> jsstring \<Rightarrow> 32 word" where
  "hash_loop h [] = h"
| "hash_loop h (c # cs) = hash_loop ((h XOR ucast c) * 16777619) cs"

definition hashStringToInt :: "jsstring \<Rightarrow> jsnum \<Rightarrow> js_error + jsnum" where
  "hashStringToInt s mx = Inr (js_rem (Fin (of_nat (unat (hash_loop 2166136261 s)))) mx)"

section \<open>The client\<close>

text \<open>
  The fields of \<open>FeatureFlagClient\<close>. The store is used through \<open>getFlag\<close> only, a function
  from keys to values that is \<open>undefined\<close> at a key without a definition.
\<close>

record FeatureFlagClient =
  store :: "jsstring \<Rightarrow> jsval"
  seed :: jsstring
  defaultRolloutAttribute :: jsstring

text \<open>\<open>InMemoryFlagStore.getFlag\<close> over the flags given at construction.\<close>

definition getFlag :: "(jsstring \<times> jsval) list \<Rightarrow> jsstring \<Rightarrow> jsval" where
  "getFlag flags key = (case map_of flags key of None \<Rightarrow> JUndefined | Some v \<Rightarrow> v)"

text \<open>The constructor: an option that is missing or the empty string takes its default.\<close>

record FeatureFlagClientOptions =
  opt_store :: "(jsstring \<Rightarrow> jsval) option"
  opt_seed :: "jsstring option"
  opt_defaultRolloutAttribute :: "jsstring option"

definition or_default :: "jsstring option \<Rightarrow> jsstring \<Rightarrow> jsstring" where
  "or_default v d = (case v of None \<Rightarrow> d | Some s \<Rightarrow> if s = [] then d else s)"

definition new_client :: "FeatureFlagClientOptions \<Rightarrow> FeatureFlagClient" where
  "new_client options =
     \<lparr>store = (case opt_store options of None \<Rightarrow> getFlag [] | Some g \<Rightarrow> g),
      seed = or_default (opt_seed options) (str ''feature-flags-default-seed''),
      defaultRolloutAttribute = or_default (opt_defaultRolloutAttribute options) (str ''userId'')\<rparr>"

text \<open>
  A context is read through \<open>context[key]\<close> only: a function from property keys to values,
  \<open>undefined\<close> where the context has no such property.
\<close>

type_synonym jscontext = "jsstring \<Rightarrow> jsval"

record EvaluationResult =
  enabled :: bool
  variant :: "jsstring option"
  flag :: "jsval option"

subsection \<open>Conditions\<close>

fun elems :: "jsval \<Rightarrow> jsval list" where
  "elems (JArr i xs) = xs"
| "elems v = []"

text \<open>
  The body of the loop of \<open>_evaluateConditions\<close> for one entry: \<open>Inr False\<close> is
  \<open>return false\<close>, \<open>Inr True\<close> is \<open>break\<close> out of the switch, on to the next entry.
\<close>

definition check_condition :: "(real \<Rightarrow> jsstring) \<Rightarrow> jsval \<Rightarrow> jscontext \<Rightarrow> js_error + bool" where
  "check_condition N cond ctx =
     (case get_prop cond (str ''attribute'') of Inl e \<Rightarrow> Inl e | Inr attribute \<Rightarrow>
      let actual = ctx (ToString N attribute) in
      case get_prop cond (str ''value'') of Inl e \<Rightarrow> Inl e | Inr expected \<Rightarrow>
      case get_prop cond (str ''operator'') of Inl e \<Rightarrow> Inl e | Inr operator \<Rightarrow>
        if operator = JStr (str ''eq'') then
          (if \<not> strict_eq actual expected then Inr False else Inr True)
        else if operator = JStr (str ''neq'') then
          (if strict_eq actual expected then Inr False else Inr True)
        else if operator = JStr (str ''in'') then
          (if \<not> Array_isArray expected \<or> \<not> Array_includes (elems expected) actual
           then Inr False else Inr True)
        else if operator = JStr (str ''not_in'') then
          (if Array_isArray expected \<and> Array_includes (elems expected) actual
           then Inr False else Inr True)
        else Inr False)"

fun evaluateConditions :: "(real \<Rightarrow> jsstring) \<Rightarrow> jsval list \<Rightarrow> jscontext \<Rightarrow> js_error + bool" where
  "evaluateConditions N [] ctx = Inr True"
| "evaluateConditions N (cond # conditions) ctx =
     (case check_condition N cond ctx of
        Inl e \<Rightarrow> Inl e
      | Inr passes \<Rightarrow> if passes then evaluateConditions N conditions ctx else Inr False)"

subsection \<open>Rollout\<close>

definition computeBucket :: "FeatureFlagClient \<Rightarrow> jsstring \<Rightarrow> jsstring \<Rightarrow> js_error + jsnum" where
  "computeBucket cl key identifier =
     hashStringToInt (seed cl @ str '':'' @ key @ str '':'' @ identifier) (Fin 100)"

text \<open>\<open>String(context[attr] ?? "")\<close>, \<open>attr\<close> being any value used as a property key.\<close>

definition identifier_of :: "(real \<Rightarrow> jsstring) \<Rightarrow> jscontext \<Rightarrow> jsval \<Rightarrow> jsstring" where
  "identifier_of N ctx attr =
     (let v = ctx (ToString N attr) in ToString N (if nullish v then JStr [] else v))"

text \<open>
  The rollout block of \<open>evaluate\<close> (the statement under the comment "Rollout (percentage
  based)"): \<open>Inr False\<close> when one of its two \<open>return\<close> statements is reached, \<open>Inr True\<close>
  when control falls through to the variants.
\<close>

definition isInRollout ::
  "(real \<Rightarrow> jsstring) \<Rightarrow> FeatureFlagClient \<Rightarrow> jsstring \<Rightarrow> jsval \<Rightarrow> jscontext \<Rightarrow> js_error + bool" where
  "isInRollout N cl key flg ctx =
     (case get_prop flg (str ''rollout'') of Inl e \<Rightarrow> Inl e | Inr rollout \<Rightarrow>
      if \<not> truthy rollout then Inr True else
      case get_prop rollout (str ''percentage'') of Inl e \<Rightarrow> Inl e | Inr pct \<Rightarrow>
      (case pct of
         JNum p \<Rightarrow>
           let percentage = Math_max (Fin 0) (Math_min (Fin 100) p) in
           if num_eq percentage (Fin 0) then Inr False
           else if js_lt percentage (Fin 100) then
             (case get_prop rollout (str ''attribute'') of Inl e \<Rightarrow> Inl e | Inr a \<Rightarrow>
              let attr = (if truthy a then a else JStr (defaultRolloutAttribute cl));
                  identifier = identifier_of N ctx attr in
              case computeBucket cl key identifier of Inl e \<Rightarrow> Inl e | Inr bucket \<Rightarrow>
                if js_ge bucket percentage then Inr False else Inr True)
           else Inr True
       | _ \<Rightarrow> Inr True))"

subsection \<open>Variants\<close>

text \<open>\<open>typeof cfg.weight === "number" ? cfg.weight : 0\<close>.\<close>

definition weight_of :: "jsval \<Rightarrow> js_error + jsnum" where
  "weight_of cfg =
     (case get_prop cfg (str ''weight'') of
        Inl e \<Rightarrow> Inl e
      | Inr w \<Rightarrow> Inr (case w of JNum n \<Rightarrow> n | _ \<Rightarrow> Fin 0))"

text \<open>The \<open>reduce\<close> that computes \<open>totalWeight\<close>, \<open>acc\<close> being its accumulator \<open>sum\<close>.\<close>

fun total_weight :: "jsnum \<Rightarrow> (jsstring \<times> jsval) list \<Rightarrow> js_error + jsnum" where
  "total_weight acc [] = Inr acc"
| "total_weight acc ((name, cfg) # entries) =
     (case weight_of cfg of
        Inl e \<Rightarrow> Inl e
      | Inr w \<Rightarrow> total_weight (js_add acc (Math_max (Fin 0) w)) entries)"

text \<open>
  The loop over the entries with its running \<open>cumulative\<close>: \<open>Inr (Some name)\<close> is
  \<open>return name\<close>, \<open>Inr None\<close> is the end of the loop without a return.
\<close>

fun walk :: "jsnum \<Rightarrow> jsnum \<Rightarrow> (jsstring \<times> jsval) list \<Rightarrow> js_error + jsstring option" where
  "walk bucket cumulative [] = Inr None"
| "walk bucket cumulative ((name, cfg) # entries) =
     (case weight_of cfg of
        Inl e \<Rightarrow> Inl e
      | Inr w0 \<Rightarrow>
          let w = Math_max (Fin 0) w0; cumulative' = js_add cumulative w in
          if js_lt bucket cumulative' then Inr (Some name)
          else walk bucket cumulative' entries)"

definition selectVariant ::
  "(real \<Rightarrow> jsstring) \<Rightarrow> FeatureFlagClient \<Rightarrow> jsstring \<Rightarrow> jsval \<Rightarrow> jscontext
     \<Rightarrow> js_error + jsstring option" where
  "selectVariant N cl key flg ctx =
     (case get_prop flg (str ''variants'') of Inl e \<Rightarrow> Inl e | Inr variants \<Rightarrow>
      if \<not> truthy variants \<or> \<not> typeof_object variants then Inr None else
      let entries = Object_entries variants in
      if length entries = 0 then Inr None else
      case total_weight (Fin 0) entries of Inl e \<Rightarrow> Inl e | Inr totalWeight \<Rightarrow>
      if js_le totalWeight (Fin 0) then Inr None else
      case get_prop flg (str ''rollout'') of Inl e \<Rightarrow> Inl e | Inr rollout \<Rightarrow>
      case (if truthy rollout then get_prop rollout (str ''attribute'') else Inr rollout) of
        Inl e \<Rightarrow> Inl e
      | Inr a \<Rightarrow>
      let attr = (if truthy a then a else JStr (defaultRolloutAttribute cl));
          identifier = identifier_of N ctx attr in
      case hashStringToInt (seed cl @ str '':variant:'' @ key @ str '':'' @ identifier) totalWeight of
        Inl e \<Rightarrow> Inl e
      | Inr bucket \<Rightarrow>
      case walk bucket (Fin 0) entries of
        Inl e \<Rightarrow> Inl e
      | Inr (Some name) \<Rightarrow> Inr (Some name)
      | Inr None \<Rightarrow>
          let name = fst (last entries) in Inr (if name \<noteq> [] then Some name else None))"

subsection \<open>evaluate\<close>

definition disabled :: "jsval \<Rightarrow> EvaluationResult" where
  "disabled flg = \<lparr>enabled = False, variant = None, flag = Some flg\<rparr>"

definition evaluate ::
  "(real \<Rightarrow> jsstring) \<Rightarrow> FeatureFlagClient \<Rightarrow> jsstring \<Rightarrow> jscontext \<Rightarrow> js_error + EvaluationResult" where
  "evaluate N cl key ctx =
     (let flg = store cl key in
      if \<not> truthy flg then Inr \<lparr>enabled = False, variant = None, flag = None\<rparr> else
      case get_prop flg (str ''enabled'') of Inl e \<Rightarrow> Inl e | Inr en \<Rightarrow>
      if \<not> truthy en then Inr (disabled flg) else
      case get_prop flg (str ''conditions'') of Inl e \<Rightarrow> Inl e | Inr conditions \<Rightarrow>
      case (if Array_isArray conditions \<and> length (elems conditions) > 0
            then evaluateConditions N (elems conditions) ctx else Inr True) of
        Inl e \<Rightarrow> Inl e
      | Inr passes \<Rightarrow>
      if \<not> passes then Inr (disabled flg) else
      case isInRollout N cl key flg ctx of Inl e \<Rightarrow> Inl e | Inr inside \<Rightarrow>
      if \<not> inside then Inr (disabled flg) else
      case selectVariant N cl key flg ctx of
        Inl e \<Rightarrow> Inl e
      | Inr v \<Rightarrow> Inr \<lparr>enabled = True, variant = v, flag = Some flg\<rparr>)"


definition getVariant ::
  "(real \<Rightarrow> jsstring) \<Rightarrow> FeatureFlagClient \<Rightarrow> jsstring \<Rightarrow> jscontext \<Rightarrow> js_error + jsstring option" where
  "getVariant N cl key ctx = map_sum id variant (evaluate N cl key ctx)"

section \<open>The specification's definitions\<close>

text \<open>
  The 32-bit FNV-1a variant in the specification's words: from the offset basis, each
  character code is XOR-ed into the running hash, which is then multiplied by the FNV prime
  with 32-bit unsigned wraparound.
\<close>

definition fnv1a_32 :: "nat list \<Rightarrow> nat" where
  "fnv1a_32 cs = foldl (\<lambda>h c. ((h XOR c) * 16777619) mod 2 ^ 32) 2166136261 cs"

text \<open>
  The conditions block of \<open>evaluate\<close> in the specification's words: the conditions are
  present (an array), non-empty and fail; or they do not stand in the way (they are not a
  non-empty array, or they pass).
\<close>

definition conditions_fail :: "(real \<Rightarrow> jsstring) \<Rightarrow> jsval \<Rightarrow> jscontext \<Rightarrow> bool" where
  "conditions_fail N flg ctx =
     (case read_prop flg (str ''conditions'') of
        JArr j cs \<Rightarrow> cs \<noteq> [] \<and> evaluateConditions N cs ctx = Inr False
      | _ \<Rightarrow> False)"

definition conditions_pass :: "(real \<Rightarrow> jsstring) \<Rightarrow> jsval \<Rightarrow> jscontext \<Rightarrow> bool" where
  "conditions_pass N flg ctx =
     (case read_prop flg (str ''conditions'') of
        JArr j cs \<Rightarrow> cs = [] \<or> evaluateConditions N cs ctx = Inr True
      | _ \<Rightarrow> True)"

text \<open>
  The conditions block of \<open>evaluate\<close> as one result: \<open>Inr False\<close> when it returns the
  disabled result, \<open>Inr True\<close> when control passes on, \<open>Inl\<close> when it throws.
\<close>

definition conditions_block :: "(real \<Rightarrow> jsstring) \<Rightarrow> jsval \<Rightarrow> jscontext \<Rightarrow> js_error + bool" where
  "conditions_block N flg ctx =
     (case read_prop flg (str ''conditions'') of
        JArr j cs \<Rightarrow> if cs = [] then Inr True else evaluateConditions N cs ctx
      | _ \<Rightarrow> Inr True)"


text \<open>The bucketing attribute: \<open>rollout.attribute\<close> if present, else the client's default.\<close>

definition rollout_attr :: "FeatureFlagClient \<Rightarrow> jsval \<Rightarrow> jsval" where
  "rollout_attr cl rollout =
     (if truthy (read_prop rollout (str ''attribute'')) then read_prop rollout (str ''attribute'')
      else JStr (defaultRolloutAttribute cl))"

text \<open>Clamping a percentage to \<open>[0, 100]\<close>.\<close>

definition clamp_percentage :: "jsnum \<Rightarrow> jsnum" where
  "clamp_percentage p =
     (if js_lt p (Fin 0) then Fin 0 else if js_lt (Fin 100) p then Fin 100 else p)"

text \<open>
  The three comparisons of the rollout block on the clamped percentage \<open>c\<close> and the
  bucket \<open>b\<close>: \<open>c === 0\<close>, \<open>c < 100\<close>, \<open>b >= c\<close>.
\<close>

definition gate :: "jsnum \<Rightarrow> jsnum \<Rightarrow> bool" where
  "gate c b =
     (if num_eq c (Fin 0) then False else if js_lt c (Fin 100) then \<not> js_ge b c else True)"

text \<open>
  The variant selector in the specification's words. The weight of a variant is its
  \<open>weight\<close> when that is a number, else 0, clamped below at zero; the total is the sum of
  these in the order of the entries; the chosen variant is the first whose cumulative weight
  exceeds the bucket.
\<close>

definition clamped_weight :: "jsval \<Rightarrow> jsnum" where
  "clamped_weight cfg =
     Math_max (Fin 0) (case read_prop cfg (str ''weight'') of JNum n \<Rightarrow> n | _ \<Rightarrow> Fin 0)"

definition weight_sum :: "(jsstring \<times> jsval) list \<Rightarrow> jsnum" where
  "weight_sum es = foldl js_add (Fin 0) (map (\<lambda>(name, cfg). clamped_weight cfg) es)"



section \<open>Example data\<close>

text \<open>
  An instance of \<open>Number::toString\<close> for the examples: the decimal digits of a non-negative
  integer. A client with the default seed and default rollout attribute over an in-memory
  store, and a context given by its properties.
\<close>

definition decimal :: "real \<Rightarrow> jsstring" where
  "decimal r = index_str (nat \<lfloor>r\<rfloor>)"

definition client_of :: "(jsstring \<times> jsval) list \<Rightarrow> FeatureFlagClient" where
  "client_of flags =
     new_client \<lparr>opt_store = Some (getFlag flags), opt_seed = None,
                 opt_defaultRolloutAttribute = None\<rparr>"

definition context_of :: "(jsstring \<times> jsval) list \<Rightarrow> jscontext" where
  "context_of ps = (\<lambda>k. case map_of ps k of None \<Rightarrow> JUndefined | Some v \<Rightarrow> v)"

definition user :: "string \<Rightarrow> jscontext" where
  "user u = context_of [(str ''userId'', JStr (str u))]"

text \<open>\<open>{enabled: false, conditions: [null], rollout: {percentage: "x"}, variants: {a: null}}\<close>\<close>

definition flag_off :: jsval where
  "flag_off = JObj 1
     [(str ''enabled'', JBool False),
      (str ''conditions'', JArr 2 [JNull]),
      (str ''rollout'', JObj 3 [(str ''percentage'', JStr (str ''x''))]),
      (str ''variants'', JObj 4 [(str ''a'', JNull)])]"


text \<open>\<open>{enabled: true, rollout: {percentage: 50}}\<close>, and the same with 80, NaN and "50".\<close>

definition flag_half :: jsval where
  "flag_half = JObj 1
     [(str ''enabled'', JBool True),
      (str ''rollout'', JObj 2 [(str ''percentage'', JNum (Fin 50))])]"

definition flag_most :: jsval where
  "flag_most = JObj 1
     [(str ''enabled'', JBool True),
      (str ''rollout'', JObj 2 [(str ''percentage'', JNum (Fin 80))])]"


definition flag_text :: jsval where
  "flag_text = JObj 1
     [(str ''enabled'', JBool True),
      (str ''rollout'', JObj 2 [(str ''percentage'', JStr (str ''50''))])]"


text \<open>\<open>{enabled: true, conditions: [null]}\<close> and \<open>{enabled: true, variants: {a: null}}\<close>\<close>

definition flag_null_condition :: jsval where
  "flag_null_condition = JObj 1
     [(str ''enabled'', JBool True), (str ''conditions'', JArr 2 [JNull])]"

definition flag_null_variant :: jsval where
  "flag_null_variant = JObj 1
     [(str ''enabled'', JBool True), (str ''variants'', JObj 2 [(str ''a'', JNull)])]"



text \<open>\<open>{enabled: true, variants: {"": {weight: NaN}}}\<close>\<close>

definition flag_nan_weight :: jsval where
  "flag_nan_weight = JObj 1
     [(str ''enabled'', JBool True),
      (str ''variants'', JObj 2 [([], JObj 3 [(str ''weight'', JNum NaN)])])]"


section \<open>The hash function\<close>

lemma unat_ucast_16_32: "unat (ucast (c :: 16 word) :: 32 word) = unat c"
proof -
  have "unat c < 2 ^ 16"
    using unsigned_less [of c] by simp
  then have "unat c < 2 ^ 32"
    by simp
  then show ?thesis
    by (simp add: unsigned_ucast_eq take_bit_nat_eq_self_iff)
qed

lemma unat_hash_loop:
  "unat (hash_loop h s) =
     foldl (\<lambda>h c. ((h XOR c) * 16777619) mod 2 ^ 32) (unat h) (map unat s)"
proof (induction s arbitrary: h)
  case Nil
  show ?case by simp
next
  case (Cons c cs)
  have "unat ((h XOR ucast c) * 16777619) = ((unat h XOR unat c) * 16777619) mod 2 ^ 32"
    by (simp add: unat_word_ariths unsigned_xor_eq unat_ucast_16_32)
  then show ?case using Cons.IH [of "(h XOR ucast c) * 16777619"] by simp
qed

lemma hash_loop_fnv1a: "unat (hash_loop 2166136261 s) = fnv1a_32 (map unat s)"
  by (simp add: unat_hash_loop fnv1a_32_def)

lemma trunc_minus: "trunc (- x) = - trunc x"
  by (cases "x = 0") (auto simp: trunc_def ceiling_minus floor_minus)

lemma trunc_div_nat: "trunc (real h / real m) = int (h div m)"
  by (simp add: trunc_def floor_divide_of_nat_eq)

lemma real_mod_nat: "real h - real m * real (h div m) = real (h mod m)"
  by (metis add_diff_cancel_left' mult_div_mod_eq of_nat_add of_nat_mult)

lemma js_rem_nat:
  assumes "0 < m"
  shows "js_rem (Fin (real h)) (Fin (real m)) = Fin (real (h mod m))"
  using assms by (simp add: trunc_div_nat real_mod_nat)

lemma js_rem_neg:
  assumes "0 < m"
  shows "js_rem (Fin (real h)) (Fin (- real m)) = Fin (real (h mod m))"
proof -
  have "trunc (real h / - real m) = - int (h div m)"
    using trunc_minus [of "real h / real m"] by (simp add: trunc_div_nat)
  then show ?thesis
    using assms real_mod_nat [of h m] by simp
qed

lemma hashStringToInt_mod:
  assumes "0 < m"
  shows "hashStringToInt s (Fin (real m)) = Inr (Fin (real (fnv1a_32 (map unat s) mod m)))"
proof -
  have "hashStringToInt s (Fin (real m)) =
          Inr (js_rem (Fin (real (fnv1a_32 (map unat s)))) (Fin (real m)))"
    by (simp only: hashStringToInt_def hash_loop_fnv1a)
  then show ?thesis
    by (simp only: js_rem_nat [OF assms])
qed

lemma hash_100: "\<exists>b. hashStringToInt s (Fin 100) = Inr (Fin (real b)) \<and> b < 100"
proof -
  have "hashStringToInt s (Fin (real 100)) = Inr (Fin (real (fnv1a_32 (map unat s) mod 100)))"
    by (rule hashStringToInt_mod) simp
  moreover have "fnv1a_32 (map unat s) mod 100 < 100"
    by simp
  ultimately show ?thesis
    by (intro exI [of _ "fnv1a_32 (map unat s) mod 100"]) simp
qed

text \<open>
  Claim C5. For every input string and every positive integer \<open>max\<close>, \<open>hashStringToInt\<close>
  computes the 32-bit FNV-1a variant of the string's 16-bit character codes (offset basis
  2166136261, XOR then multiplication by 16777619 modulo \<open>2^32\<close>) and returns it reduced
  modulo \<open>max\<close>, an integer in \<open>[0, max)\<close> that depends on the string and \<open>max\<close> only.
\<close>

theorem hashStringToInt_fnv1a:
  assumes "0 < m"
  shows "hashStringToInt s (Fin (real m)) = Inr (Fin (real (fnv1a_32 (map unat s) mod m)))
       \<and> fnv1a_32 (map unat s) mod m < m"
proof -
  have "hashStringToInt s (Fin (real m)) =
          Inr (js_rem (Fin (real (fnv1a_32 (map unat s)))) (Fin (real m)))"
    by (simp only: hashStringToInt_def hash_loop_fnv1a)
  then show ?thesis
    using assms by (simp only: js_rem_nat [OF assms]) simp
qed

theorem hashStringToInt_fnv1a_witness:
  "(0::nat) < 100 \<and> hashStringToInt (str ''abc'') (Fin 100) = Inr (Fin 31)
     \<and> fnv1a_32 [97, 98, 99] = 440920331"
  using hashStringToInt_fnv1a [of 100 "str ''abc''"]
  by (simp add: str_def fnv1a_32_def)

text \<open>
  Claim C9, as stated: a non-positive \<open>max\<close> makes \<open>hashStringToInt\<close> fail with an
  InvalidArgument error. It does not: \<open>hashStringToInt("abc", 0)\<close> returns NaN and
  \<open>hashStringToInt("abc", -7)\<close> returns 5.
\<close>

theorem hashStringToInt_nonpositive_max_returns:
  "hashStringToInt (str ''abc'') (Fin 0) = Inr NaN
   \<and> hashStringToInt (str ''abc'') (Fin (- 7)) = Inr (Fin 5)"
  by (simp add: hashStringToInt_def str_def trunc_def)

text \<open>
  Claim C9, amended. For every input string \<open>hashStringToInt\<close> returns a value whatever
  \<open>max\<close> is: NaN when \<open>max\<close> is 0, and the FNV-1a value reduced modulo \<open>m\<close> when \<open>max\<close> is
  the negative integer \<open>-m\<close>.
\<close>

theorem hashStringToInt_nonpositive_max:
  "(\<exists>v. hashStringToInt s mx = Inr v)
   \<and> hashStringToInt s (Fin 0) = Inr NaN
   \<and> (0 < m \<longrightarrow>
        hashStringToInt s (Fin (- real m)) = Inr (Fin (real (fnv1a_32 (map unat s) mod m))))"
proof -
  have "hashStringToInt s (Fin (- real m)) =
          Inr (js_rem (Fin (real (fnv1a_32 (map unat s)))) (Fin (- real m)))"
    by (simp only: hashStringToInt_def hash_loop_fnv1a)
  then have "0 < m \<longrightarrow>
      hashStringToInt s (Fin (- real m)) = Inr (Fin (real (fnv1a_32 (map unat s) mod m)))"
    using js_rem_neg [of m "fnv1a_32 (map unat s)"] by (simp del: js_rem.simps)
  moreover have "hashStringToInt s (Fin 0) = Inr NaN"
    by (simp add: hashStringToInt_def)
  moreover have "\<exists>v. hashStringToInt s mx = Inr v"
    by (simp add: hashStringToInt_def)
  ultimately show ?thesis by blast
qed

theorem hashStringToInt_nonpositive_max_witness:
  "(0::nat) < 7 \<and> hashStringToInt (str ''abc'') (Fin (- 7)) = Inr (Fin (real (440920331 mod 7)))"
  using hashStringToInt_nonpositive_max [of "str ''abc''" "Fin 0" 7]
  by (simp add: str_def fnv1a_32_def)

section \<open>Evaluating the examples\<close>

lemmas run =
  evaluate_def isInRollout_def selectVariant_def get_prop_def check_condition_def
  computeBucket_def identifier_of_def weight_of_def hashStringToInt_def trunc_def
  Math_max_def Math_min_def num_eq_def js_le_def js_ge_def strict_eq_def same_value_zero_def
  Array_includes_def disabled_def getFlag_def new_client_def or_default_def str_def
  client_of_def context_of_def user_def conditions_fail_def conditions_pass_def
  rollout_attr_def clamp_percentage_def array_index_def is_index_entry_def index_key_def

section \<open>Property access and the guards of evaluate\<close>

lemma truthy_not_nullish: "truthy v \<Longrightarrow> \<not> nullish v"
  by (cases v) simp_all

lemma read_prop_defined: "read_prop v name \<noteq> JUndefined \<Longrightarrow> truthy v"
  by (cases v) simp_all

lemma read_prop_truthy: "truthy (read_prop v name) \<Longrightarrow> truthy v"
  using read_prop_defined [of v name] by (cases "read_prop v name") auto

lemma get_prop_truthy: "truthy v \<Longrightarrow> get_prop v name = Inr (read_prop v name)"
  by (simp add: get_prop_def truthy_not_nullish)

lemma store_client_of: "store (client_of flags) = getFlag flags"
  by (simp add: client_of_def new_client_def)


lemma conditions_block_pass: "conditions_pass N flg ctx \<longleftrightarrow> conditions_block N flg ctx = Inr True"
  by (cases "read_prop flg (str ''conditions'')") (auto simp: conditions_pass_def conditions_block_def)

lemma evaluate_steps:
  assumes "truthy (store cl key)"
  shows "evaluate N cl key ctx =
     (let flg = store cl key in
      if \<not> truthy (read_prop flg (str ''enabled'')) then Inr (disabled flg) else
      case conditions_block N flg ctx of Inl e \<Rightarrow> Inl e | Inr passes \<Rightarrow>
      if \<not> passes then Inr (disabled flg) else
      case isInRollout N cl key flg ctx of Inl e \<Rightarrow> Inl e | Inr inside \<Rightarrow>
      if \<not> inside then Inr (disabled flg) else
      case selectVariant N cl key flg ctx of
        Inl e \<Rightarrow> Inl e
      | Inr v \<Rightarrow> Inr \<lparr>enabled = True, variant = v, flag = Some flg\<rparr>)"
proof -
  have "(if Array_isArray c \<and> length (elems c) > 0 then evaluateConditions N (elems c) ctx
         else Inr True)
        = (case c of JArr j cs \<Rightarrow> if cs = [] then Inr True else evaluateConditions N cs ctx
           | _ \<Rightarrow> Inr True)" for c
    by (cases c) simp_all
  then show ?thesis
    using assms by (simp add: evaluate_def get_prop_truthy conditions_block_def Let_def)
qed



lemma isInRollout_not_number:
  assumes "truthy (read_prop flg (str ''rollout''))"
    and "\<not> typeof_number (read_prop (read_prop flg (str ''rollout'')) (str ''percentage''))"
  shows "isInRollout N cl key flg ctx = Inr True"
proof -
  have "truthy flg" using assms(1) by (rule read_prop_truthy)
  then show ?thesis
    using assms
    by (cases "read_prop (read_prop flg (str ''rollout'')) (str ''percentage'')")
       (simp_all add: isInRollout_def get_prop_truthy)
qed


section \<open>The evaluation pipeline\<close>

text \<open>
  Claim C7. For every flag definition whose \<open>enabled\<close> field is \<open>false\<close> and every context,
  \<open>evaluate\<close> returns \<open>{enabled: false, variant: null}\<close> with the flag, whatever the
  conditions, rollout and variants fields hold: they are not read (the example flag has a
  \<open>null\<close> condition and a \<open>null\<close> variant, on which reading them would throw).
\<close>

theorem evaluate_enabled_false:
  assumes "read_prop (store cl key) (str ''enabled'') = JBool False"
  shows "evaluate N cl key ctx =
           Inr \<lparr>enabled = False, variant = None, flag = Some (store cl key)\<rparr>"
proof -
  have "truthy (store cl key)"
    using assms read_prop_defined [of "store cl key" "str ''enabled''"] by simp
  then show ?thesis
    using assms by (simp add: evaluate_steps disabled_def)
qed

theorem evaluate_enabled_false_witness:
  "read_prop (store (client_of [(str ''f'', flag_off)]) (str ''f'')) (str ''enabled'') = JBool False
   \<and> evaluate decimal (client_of [(str ''f'', flag_off)]) (str ''f'') (user ''u'')
        = Inr \<lparr>enabled = False, variant = None, flag = Some flag_off\<rparr>"
proof -
  have h: "read_prop (store (client_of [(str ''f'', flag_off)]) (str ''f'')) (str ''enabled'')
             = JBool False"
    by (simp add: run flag_off_def)
  have s: "store (client_of [(str ''f'', flag_off)]) (str ''f'') = flag_off"
    by (simp add: run)
  show ?thesis
    using h evaluate_enabled_false [OF h, of decimal "user ''u''"] by (simp add: s)
qed




text \<open>
  Claim C8 says that \<open>evaluate\<close> never throws, however malformed the flag data. On a flag
  whose condition list holds \<open>null\<close>, and on a flag with a \<open>null\<close> variant entry, it throws
  a TypeError: \<open>cond.attribute\<close> and \<open>cfg.weight\<close> are read without a guard.
\<close>

theorem evaluate_throws_on_null_entry:
  "evaluate decimal (client_of [(str ''f'', flag_null_condition)]) (str ''f'') (user ''u'')
     = Inl TypeError
   \<and> evaluate decimal (client_of [(str ''f'', flag_null_variant)]) (str ''f'') (user ''u'')
     = Inl TypeError"
  by (simp add: run flag_null_condition_def flag_null_variant_def)

text \<open>
  Claim C10. For every flag whose rollout is present but whose \<open>rollout.percentage\<close> is not
  a number, and every context, the rollout block is skipped and the flag is treated as
  fully rolled out: once \<open>enabled\<close> and the conditions are passed, the result is enabled,
  with the variant of the variant selector.
\<close>

theorem evaluate_percentage_not_a_number:
  assumes flg: "flg = store cl key"
    and r: "truthy (read_prop flg (str ''rollout''))"
    and p: "\<not> typeof_number (read_prop (read_prop flg (str ''rollout'')) (str ''percentage''))"
  shows "isInRollout N cl key flg ctx = Inr True
     \<and> (truthy (read_prop flg (str ''enabled'')) \<and> conditions_pass N flg ctx \<longrightarrow>
          evaluate N cl key ctx =
            (case selectVariant N cl key flg ctx of
               Inl e \<Rightarrow> Inl e
             | Inr v \<Rightarrow> Inr \<lparr>enabled = True, variant = v, flag = Some flg\<rparr>))"
proof -
  have g: "isInRollout N cl key flg ctx = Inr True"
    using r p by (rule isInRollout_not_number)
  have "truthy flg"
    using r by (rule read_prop_truthy)
  then show ?thesis
    using g flg by (auto simp: evaluate_steps conditions_block_pass Let_def)
qed

theorem evaluate_percentage_not_a_number_witness:
  "truthy (read_prop flag_text (str ''rollout''))
   \<and> \<not> typeof_number (read_prop (read_prop flag_text (str ''rollout'')) (str ''percentage''))
   \<and> evaluate decimal (client_of [(str ''f'', flag_text)]) (str ''f'') (user ''a'')
       = Inr \<lparr>enabled = True, variant = None, flag = Some flag_text\<rparr>"
proof -
  have s: "flag_text = store (client_of [(str ''f'', flag_text)]) (str ''f'')"
    by (simp add: store_client_of getFlag_def)
  have r: "truthy (read_prop flag_text (str ''rollout''))"
    by (simp add: flag_text_def str_def)
  have p: "\<not> typeof_number (read_prop (read_prop flag_text (str ''rollout'')) (str ''percentage''))"
    by (simp add: flag_text_def str_def)
  have e: "truthy (read_prop flag_text (str ''enabled'')) \<and> conditions_pass decimal flag_text (user ''a'')"
    by (simp add: flag_text_def str_def conditions_pass_def)
  have v: "selectVariant decimal (client_of [(str ''f'', flag_text)]) (str ''f'') flag_text (user ''a'')
             = Inr None"
    by (simp add: run flag_text_def)
  show ?thesis
    using evaluate_percentage_not_a_number [OF s r p, of decimal "user ''a''"] r p e v by simp
qed

section \<open>The rollout block\<close>

lemma clamp_percentage_eq: "Math_max (Fin 0) (Math_min (Fin 100) p) = clamp_percentage p"
  by (cases p) (auto simp: Math_max_def Math_min_def clamp_percentage_def)


lemma isInRollout_number:
  assumes "truthy (read_prop flg (str ''rollout''))"
    and "read_prop (read_prop flg (str ''rollout'')) (str ''percentage'') = JNum p"
    and "hashStringToInt (seed cl @ str '':'' @ key @ str '':'' @
                identifier_of N ctx (rollout_attr cl (read_prop flg (str ''rollout'')))) (Fin 100)
          = Inr bucket"
  shows "isInRollout N cl key flg ctx = Inr (gate (clamp_percentage p) bucket)"
proof -
  have "truthy flg" using assms(1) by (rule read_prop_truthy)
  then show ?thesis
    using assms
    by (simp add: isInRollout_def get_prop_truthy clamp_percentage_eq computeBucket_def
        rollout_attr_def Let_def gate_def)
qed

lemma gate_monotone:
  assumes "js_ge P' P" and "gate (clamp_percentage P) (Fin b)"
  shows "gate (clamp_percentage P') (Fin b)"
proof (cases P)
  case (Fin x)
  then obtain y where P': "P' = PInf \<or> P' = Fin y \<and> x \<le> y"
    using assms(1) by (cases P') (auto simp: js_ge_def js_le_def)
  then show ?thesis
    using assms(2) Fin
    by (auto simp: gate_def clamp_percentage_def num_eq_def js_ge_def js_le_def split: if_splits)
next
  case PInf
  then have "P' = PInf"
    using assms(1) by (cases P') (auto simp: js_ge_def js_le_def)
  then show ?thesis
    by (simp add: gate_def clamp_percentage_def num_eq_def)
next
  case NInf
  then show ?thesis
    using assms(2) by (simp add: gate_def clamp_percentage_def num_eq_def)
next
  case NaN
  then show ?thesis
    using assms(1) by (simp add: js_ge_def js_le_def)
qed




text \<open>
  Claim C6. For a fixed seed, flag key and identifier (the same client, key, context and
  rollout attribute), inclusion in the rollout is monotone in the percentage: a subject
  inside the rollout at percentage \<open>P\<close> is inside at every percentage \<open>P' \<ge> P\<close>.
\<close>

theorem rollout_monotone:
  assumes "truthy (read_prop flg (str ''rollout''))" and "truthy (read_prop flg' (str ''rollout''))"
    and "read_prop (read_prop flg (str ''rollout'')) (str ''percentage'') = JNum P"
    and "read_prop (read_prop flg' (str ''rollout'')) (str ''percentage'') = JNum P'"
    and "read_prop (read_prop flg' (str ''rollout'')) (str ''attribute'')
           = read_prop (read_prop flg (str ''rollout'')) (str ''attribute'')"
    and "js_ge P' P"
    and "isInRollout N cl key flg ctx = Inr True"
  shows "isInRollout N cl key flg' ctx = Inr True"
proof -
  let ?s = "seed cl @ str '':'' @ key @ str '':'' @
                identifier_of N ctx (rollout_attr cl (read_prop flg (str ''rollout'')))"
  obtain b where b: "hashStringToInt ?s (Fin 100) = Inr (Fin (real b))"
    using hash_100 by blast
  have a: "rollout_attr cl (read_prop flg' (str ''rollout''))
             = rollout_attr cl (read_prop flg (str ''rollout''))"
    using assms(5) by (simp add: rollout_attr_def)
  have 1: "isInRollout N cl key flg ctx = Inr (gate (clamp_percentage P) (Fin (real b)))"
    using assms(1) assms(3) b by (rule isInRollout_number)
  have 2: "isInRollout N cl key flg' ctx = Inr (gate (clamp_percentage P') (Fin (real b)))"
    using assms(2) assms(4) b unfolding a [symmetric] by (rule isInRollout_number)
  show ?thesis
    using assms(7) gate_monotone [OF assms(6), of "real b"] unfolding 1 2 by simp
qed

theorem rollout_monotone_witness:
  "js_ge (Fin 80) (Fin 50)
   \<and> isInRollout decimal (client_of []) (str ''f'') flag_half (user ''b'') = Inr True
   \<and> isInRollout decimal (client_of []) (str ''f'') flag_most (user ''b'') = Inr True"
proof -
  have h: "truthy (read_prop flag_half (str ''rollout''))"
      "truthy (read_prop flag_most (str ''rollout''))"
      "read_prop (read_prop flag_half (str ''rollout'')) (str ''percentage'') = JNum (Fin 50)"
      "read_prop (read_prop flag_most (str ''rollout'')) (str ''percentage'') = JNum (Fin 80)"
      "read_prop (read_prop flag_most (str ''rollout'')) (str ''attribute'')
           = read_prop (read_prop flag_half (str ''rollout'')) (str ''attribute'')"
    by (simp_all add: flag_half_def flag_most_def str_def)
  have g: "js_ge (Fin 80) (Fin 50)"
    by (simp add: js_ge_def js_le_def)
  have i: "isInRollout decimal (client_of []) (str ''f'') flag_half (user ''b'') = Inr True"
    by (simp add: run flag_half_def)
  from rollout_monotone [OF h g i] g i show ?thesis by simp
qed

section \<open>The condition evaluator\<close>








section \<open>The variant selector\<close>

lemma Object_entries_order:
  "map fst (Object_entries (JObj 0
      [(str ''b'', JNull), (str ''10'', JNull), (str ''01'', JNull), (str ''2'', JNull),
       (str ''a'', JNull), (str ''0'', JNull), (str ''4294967295'', JNull)]))
   = [str ''0'', str ''2'', str ''10'', str ''b'', str ''01'', str ''a'', str ''4294967295'']"
  by (simp add: array_index_def is_index_entry_def index_key_def str_def)











text \<open>
  The claim's list of the cases that give absent is not complete either. For the variants
  \<open>{"": {weight: NaN}}\<close> none of the four holds (the sum is NaN, and \<open>NaN <= 0\<close> is false)
  and the selector returns \<open>null\<close>: no cumulative weight exceeds the bucket, and the fallback
  \<open>entries[entries.length - 1][0] || null\<close> turns the empty name into \<open>null\<close>.
\<close>

lemma selectVariant_nan_weight_absent:
  "selectVariant decimal (client_of [(str ''f'', flag_nan_weight)]) (str ''f'') flag_nan_weight
      (user ''a'') = Inr None
   \<and> read_prop flag_nan_weight (str ''variants'') = JObj 2 [([], JObj 3 [(str ''weight'', JNum NaN)])]
   \<and> Object_entries (JObj 2 [([], JObj 3 [(str ''weight'', JNum NaN)])]) \<noteq> []
   \<and> weight_sum (Object_entries (JObj 2 [([], JObj 3 [(str ''weight'', JNum NaN)])])) = NaN
   \<and> \<not> js_le NaN (Fin 0)"
  by (simp add: run flag_nan_weight_def weight_sum_def clamped_weight_def)



end
